theory Spec2Isabelle
  imports Complex_Main
begin

section \<open>JavaScript values\<close>

text \<open>
  The gateway of \<^verbatim>\<open>server.js\<close> works on loosely typed values: the parsed JSON body
  of a request, the object sent upstream, the object that comes back and the error object
  a failed call throws. They are modelled by one datatype of JavaScript values. A number is
  an IEEE double; only its being zero or \<^verbatim>\<open>NaN\<close> is observed by the code (truthiness), so
  a finite number is kept as the rational it denotes. An object is the list of its own
  enumerable properties; a property is read with \<open>map_of\<close>, so the first entry of a key
  is the property. Objects are compared through their properties, not through the order
  of the list.
\<close>

datatype jsnum = Fin rat | PosInf | NegInf | NaN

datatype jsval =
    JUndefined
  | JNull
  | JBool bool
  | JNum jsnum
  | JStr string
  | JArr "jsval list"
  | JObj "(string \<times> jsval) list"

text \<open>The error object a \<^verbatim>\<open>throw\<close> carries, with the four properties the handler reads.\<close>

record js_error =
  err_code :: jsval
  err_status :: jsval
  err_message :: jsval
  err_type :: jsval

definition TypeError :: "string \<Rightarrow> js_error" where
  "TypeError msg =
     \<lparr>err_code = JUndefined, err_status = JUndefined, err_message = JStr msg,
      err_type = JUndefined\<rparr>"

text \<open>What \<^verbatim>\<open>!v\<close>, \<^verbatim>\<open>v || d\<close> and \<^verbatim>\<open>if (v)\<close> test.\<close>

fun truthy :: "jsval \<Rightarrow> bool" where
  "truthy JUndefined = False"
| "truthy JNull = False"
| "truthy (JBool b) = b"
| "truthy (JNum (Fin q)) = (q \<noteq> 0)"
| "truthy (JNum PosInf) = True"
| "truthy (JNum NegInf) = True"
| "truthy (JNum NaN) = False"
| "truthy (JStr s) = (s \<noteq> [])"
| "truthy (JArr xs) = True"
| "truthy (JObj kvs) = True"

definition js_or :: "jsval \<Rightarrow> jsval \<Rightarrow> jsval" where
  "js_or a b = (if truthy a then a else b)"

definition isArray :: "jsval \<Rightarrow> bool" where
  "isArray v = (case v of JArr xs \<Rightarrow> True | _ \<Rightarrow> False)"

text \<open>The elements a \<^verbatim>\<open>for ... of\<close> loop visits; the handler loops over arrays only.\<close>

definition elements :: "jsval \<Rightarrow> jsval list" where
  "elements v = (case v of JArr xs \<Rightarrow> xs | _ \<Rightarrow> [])"

definition lookup :: "(string \<times> jsval) list \<Rightarrow> string \<Rightarrow> jsval" where
  "lookup kvs k = (case map_of kvs k of None \<Rightarrow> JUndefined | Some v \<Rightarrow> v)"

text \<open>
  Reading the property \<open>k\<close> of a value, \<^verbatim>\<open>v.k\<close>. Reading a property of \<^verbatim>\<open>null\<close> or
  \<^verbatim>\<open>undefined\<close> throws a TypeError. An object gives its own property of that name, or
  \<^verbatim>\<open>undefined\<close>. The names the handler reads from a body and from a message (\<^verbatim>\<open>model\<close>,
  \<^verbatim>\<open>messages\<close>, \<^verbatim>\<open>max_completion_tokens\<close>, \<^verbatim>\<open>role\<close>, \<^verbatim>\<open>content\<close>) are no index, not
  \<^verbatim>\<open>length\<close> and no property of a built-in prototype, so every other value gives
  \<^verbatim>\<open>undefined\<close> for them.
\<close>

fun get_prop :: "jsval \<Rightarrow> string \<Rightarrow> js_error + jsval" where
  "get_prop JUndefined k = Inl (TypeError ''Cannot read properties of undefined'')"
| "get_prop JNull k = Inl (TypeError ''Cannot read properties of null'')"
| "get_prop (JObj kvs) k = Inr (lookup kvs k)"
| "get_prop v k = Inr JUndefined"

text \<open>
  \<^verbatim>\<open>CreateDataProperty\<close>: defining a property that exists replaces its value, a new one
  goes last.
\<close>

fun set_prop :: "string \<Rightarrow> jsval \<Rightarrow> (string \<times> jsval) list \<Rightarrow> (string \<times> jsval) list" where
  "set_prop k v [] = [(k, v)]"
| "set_prop k v ((k', v') # kvs) =
     (if k' = k then (k, v) # kvs else (k', v') # set_prop k v kvs)"

text \<open>
  The spread \<^verbatim>\<open>{...src}\<close> inside an object literal (\<^verbatim>\<open>CopyDataProperties\<close>): for each
  own key of \<open>src\<close> in turn, the value read from \<open>src\<close> is defined on the object built so
  far, so a spread property overrides one written before it in the literal.
\<close>

definition spread ::
  "(string \<times> jsval) list \<Rightarrow> (string \<times> jsval) list \<Rightarrow> (string \<times> jsval) list" where
  "spread target src = foldl (\<lambda>obj k. set_prop k (lookup src k) obj) target (map fst src)"

text \<open>The decimal name of an array index, as a property key.\<close>

definition digit :: "nat \<Rightarrow> char" where
  "digit d = ''0123456789'' ! d"

fun index_key :: "nat \<Rightarrow> string" where
  "index_key i =
     (if i < 10 then [digit i] else index_key (i div 10) @ [digit (i mod 10)])"

declare index_key.simps [simp del]

text \<open>
  The own enumerable properties of a value, which the rest pattern and the spread copy:
  the entries of an object, the indexed elements of an array, the indexed characters of a
  string, nothing for a number or a boolean.
\<close>

definition own_props :: "jsval \<Rightarrow> (string \<times> jsval) list" where
  "own_props v =
     (case v of
        JObj kvs \<Rightarrow> kvs
      | JArr xs \<Rightarrow> zip (map index_key [0..<length xs]) xs
      | JStr s \<Rightarrow> zip (map index_key [0..<length s]) (map (\<lambda>c. JStr [c]) s)
      | _ \<Rightarrow> [])"

section \<open>Responses\<close>

text \<open>
  \<^verbatim>\<open>res.status(c).json(b)\<close> stores \<open>c\<close> as the status code and sends \<open>b\<close>; without
  \<^verbatim>\<open>status\<close> the code is 200. A response is the pair the handler hands over; what the
  HTTP layer does with a code that is not an HTTP status is outside the model.
\<close>

record response =
  statusCode :: jsval
  payload :: jsval

definition http :: "nat \<Rightarrow> jsval" where
  "http n = JNum (Fin (of_nat n))"

definition json_response :: "jsval \<Rightarrow> jsval \<Rightarrow> response" where
  "json_response c b = \<lparr>statusCode = c, payload = b\<rparr>"

text \<open>The field \<open>k\<close> of the error envelope \<^verbatim>\<open>{error: {...}}\<close> of a response.\<close>

definition error_field :: "response \<Rightarrow> string \<Rightarrow> js_error + jsval" where
  "error_field r k =
     (case get_prop (payload r) ''error'' of Inl x \<Rightarrow> Inl x | Inr env \<Rightarrow> get_prop env k)"

section \<open>The chat completions handler\<close>

text \<open>
  \<^verbatim>\<open>const { model, messages, max_completion_tokens, ...otherParams } = req.body\<close>:
  destructuring \<^verbatim>\<open>null\<close> or \<^verbatim>\<open>undefined\<close> throws; otherwise the three names are read
  and the rest pattern collects every other own property.
\<close>

definition rest_props :: "jsval \<Rightarrow> (string \<times> jsval) list" where
  "rest_props body =
     filter (\<lambda>(k, v). k \<notin> {''model'', ''messages'', ''max_completion_tokens''})
       (own_props body)"

definition destructure ::
  "jsval \<Rightarrow> js_error + (jsval \<times> jsval \<times> jsval \<times> (string \<times> jsval) list)" where
  "destructure body =
     (case get_prop body ''model'' of
        Inl e \<Rightarrow> Inl e
      | Inr model \<Rightarrow>
          (case get_prop body ''messages'' of
             Inl e \<Rightarrow> Inl e
           | Inr messages \<Rightarrow>
               (case get_prop body ''max_completion_tokens'' of
                  Inl e \<Rightarrow> Inl e
                | Inr max_completion_tokens \<Rightarrow>
                    Inr (model, messages, max_completion_tokens, rest_props body))))"

definition bad_request :: "string \<Rightarrow> response" where
  "bad_request msg =
     json_response (http 400)
       (JObj [(''error'', JObj [(''message'', JStr msg),
                                (''type'', JStr ''invalid_request_error'')])])"

text \<open>
  The validation loop: \<open>Inr None\<close> when every message passes, \<open>Inr (Some r)\<close> when the
  loop returns the response \<open>r\<close>, \<open>Inl e\<close> when reading a property throws.
\<close>

fun validate_messages :: "jsval list \<Rightarrow> js_error + response option" where
  "validate_messages [] = Inr None"
| "validate_messages (message # rest) =
     (case get_prop message ''role'' of
        Inl e \<Rightarrow> Inl e
      | Inr role \<Rightarrow>
          if \<not> truthy role
          then Inr (Some (bad_request ''Each message must have role and content''))
          else
            (case get_prop message ''content'' of
               Inl e \<Rightarrow> Inl e
             | Inr content \<Rightarrow>
                 if \<not> truthy content
                 then Inr (Some (bad_request ''Each message must have role and content''))
                 else validate_messages rest))"

definition openaiRequest ::
  "jsval \<Rightarrow> jsval \<Rightarrow> jsval \<Rightarrow> (string \<times> jsval) list \<Rightarrow> jsval" where
  "openaiRequest model messages max_completion_tokens otherParams =
     JObj (spread
       [(''model'', js_or model (JStr ''gpt-4o-mini'')),
        (''messages'', messages),
        (''max_completion_tokens'', js_or max_completion_tokens (http 40))]
       otherParams)"

text \<open>
  The upstream provider is a parameter: the outcome of
  \<^verbatim>\<open>await openai.chat.completions.create(request)\<close>, the completion object or the error
  thrown. The body of \<^verbatim>\<open>try\<close> returns the response sent or the error thrown, together
  with the list of the requests it sent upstream.
\<close>

type_synonym upstream = "jsval \<Rightarrow> js_error + jsval"

definition try_block :: "upstream \<Rightarrow> jsval \<Rightarrow> (js_error + response) \<times> jsval list" where
  "try_block upstream body =
     (case destructure body of
        Inl e \<Rightarrow> (Inl e, [])
      | Inr (model, messages, max_completion_tokens, otherParams) \<Rightarrow>
          if \<not> truthy messages \<or> \<not> isArray messages
          then (Inr (bad_request ''Messages array is required''), [])
          else
            (case validate_messages (elements messages) of
               Inl e \<Rightarrow> (Inl e, [])
             | Inr (Some r) \<Rightarrow> (Inr r, [])
             | Inr None \<Rightarrow>
                 (let request = openaiRequest model messages max_completion_tokens otherParams
                  in case upstream request of
                       Inl e \<Rightarrow> (Inl e, [request])
                     | Inr completion \<Rightarrow> (Inr (json_response (http 200) completion), [request]))))"

definition catch_block :: "js_error \<Rightarrow> response" where
  "catch_block error =
     (if err_code error = JStr ''insufficient_quota'' then
        json_response (http 429)
          (JObj [(''error'', JObj [(''message'', JStr ''API quota exceeded''),
                                   (''type'', JStr ''insufficient_quota''),
                                   (''code'', JStr ''insufficient_quota'')])])
      else if err_code error = JStr ''rate_limit_exceeded'' then
        json_response (http 429)
          (JObj [(''error'', JObj [(''message'', JStr ''Rate limit exceeded, please try again later''),
                                   (''type'', JStr ''rate_limit_exceeded''),
                                   (''code'', JStr ''rate_limit_exceeded'')])])
      else if truthy (err_status error) then
        json_response (err_status error)
          (JObj [(''error'', JObj [(''message'', js_or (err_message error) (JStr ''OpenAI API error'')),
                                   (''type'', js_or (err_type error) (JStr ''api_error'')),
                                   (''code'', js_or (err_code error) (JStr ''api_error''))])])
      else
        json_response (http 500)
          (JObj [(''error'', JObj [(''message'', JStr ''Internal server error''),
                                   (''type'', JStr ''server_error'')])]))"

definition chat_completions :: "upstream \<Rightarrow> jsval \<Rightarrow> response \<times> jsval list" where
  "chat_completions upstream body =
     (case try_block upstream body of
        (Inl error, sent) \<Rightarrow> (catch_block error, sent)
      | (Inr r, sent) \<Rightarrow> (r, sent))"

section \<open>The application\<close>

text \<open>
  A request as the handlers see it: method, path, client address, arrival time in
  milliseconds since the limiter was created, and the body as the JSON middleware parsed
  it (an object or an array; the empty object when the request has none). The header
  middleware (\<^verbatim>\<open>helmet\<close>, \<^verbatim>\<open>cors\<close>) only adds response headers and is left out, and so
  is a body the parser refuses, which never reaches a route.
\<close>

datatype http_method = GET | POST | OTHER

record request =
  req_method :: http_method
  req_path :: string
  req_ip :: string
  req_time :: nat
  req_body :: jsval

text \<open>The health check; the timestamp is the clock reading formatted by \<^verbatim>\<open>toISOString\<close>.\<close>

definition health :: "string \<Rightarrow> response" where
  "health timestamp =
     json_response (http 200)
       (JObj [(''status'', JStr ''OK''),
              (''timestamp'', JStr timestamp),
              (''service'', JStr ''Crystal Companions Backend'')])"

definition not_found :: response where
  "not_found =
     json_response (http 404)
       (JObj [(''error'', JObj [(''message'', JStr ''Endpoint not found''),
                                (''type'', JStr ''not_found'')])])"

subsection \<open>The rate limiter\<close>

text \<open>
  Modelled from the spec: the middleware that \<^verbatim>\<open>rateLimit({windowMs, max, message})\<close>
  returns is code of the \<^verbatim>\<open>express-rate-limit\<close> package, which is not part of the
  sources; only its configuration is. The spec describes it as fixed-window rate limiting:
  a counter per client address, reset at the boundaries of a recurring window of 15
  minutes, and a request beyond the cap is rejected before it reaches the handler. The
  store holds the index of the current window and the counters of that window; the first
  request of a new window starts the counters afresh (\<open>roll\<close>). A request is counted,
  also when it is rejected, and passes while the count is at most the cap.
\<close>

definition windowMs :: nat where
  "windowMs = 15 * 60 * 1000"

definition max_requests :: nat where
  "max_requests = 120"

record limiter_store =
  window :: nat
  hits :: "string \<Rightarrow> nat"

definition roll :: "nat \<Rightarrow> limiter_store \<Rightarrow> limiter_store" where
  "roll now store =
     (if window store = now div windowMs then store
      else \<lparr>window = now div windowMs, hits = (\<lambda>k. 0)\<rparr>)"

definition limiter :: "nat \<Rightarrow> string \<Rightarrow> limiter_store \<Rightarrow> bool \<times> limiter_store" where
  "limiter now key store =
     (let current = roll now store;
          n = hits current key + 1
      in (n \<le> max_requests, current\<lparr>hits := (hits current)(key := n)\<rparr>))"

definition too_many_requests :: response where
  "too_many_requests =
     json_response (http 429)
       (JStr ''Too many requests from this IP, please try again later.'')"

subsection \<open>Routing\<close>

text \<open>
  \<^verbatim>\<open>app.use('/api/', limiter)\<close>: the limiter runs for the paths under \<^verbatim>\<open>/api\<close>. A path
  is the request's path as the router compares it, without the query string.
\<close>

definition under_api :: "string \<Rightarrow> bool" where
  "under_api path = (path = ''/api'' \<or> take 5 path = ''/api/'')"

definition routes :: "upstream \<Rightarrow> (nat \<Rightarrow> string) \<Rightarrow> request \<Rightarrow> response \<times> jsval list" where
  "routes upstream toISOString req =
     (if req_method req = GET \<and> req_path req = ''/health''
      then (health (toISOString (req_time req)), [])
      else if req_method req = POST \<and> req_path req = ''/api/chat/completions''
      then chat_completions upstream (req_body req)
      else (not_found, []))"

text \<open>
  One request through the middleware chain, in the order of registration: the limiter
  first, the routes after it. The result is the response, the requests sent upstream and
  the limiter's store afterwards.
\<close>

definition app ::
  "upstream \<Rightarrow> (nat \<Rightarrow> string) \<Rightarrow> limiter_store \<Rightarrow> request
     \<Rightarrow> (response \<times> jsval list) \<times> limiter_store" where
  "app upstream toISOString store req =
     (if under_api (req_path req) then
        (case limiter (req_time req) (req_ip req) store of
           (True, store') \<Rightarrow> (routes upstream toISOString req, store')
         | (False, store') \<Rightarrow> ((too_many_requests, []), store'))
      else (routes upstream toISOString req, store))"

text \<open>The store after a sequence of requests, served one after the other.\<close>

fun serve ::
  "upstream \<Rightarrow> (nat \<Rightarrow> string) \<Rightarrow> limiter_store \<Rightarrow> request list \<Rightarrow> limiter_store" where
  "serve upstream toISOString store [] = store"
| "serve upstream toISOString store (req # reqs) =
     serve upstream toISOString (snd (app upstream toISOString store req)) reqs"

section \<open>Predicates and sample inputs of the statements\<close>

text \<open>
  A message has a non-empty \<open>k\<close> when reading \<open>k\<close> succeeds and gives a truthy value:
  the test the validation loop makes.
\<close>

definition has_nonempty :: "jsval \<Rightarrow> string \<Rightarrow> bool" where
  "has_nonempty v k = (case get_prop v k of Inl e \<Rightarrow> False | Inr x \<Rightarrow> truthy x)"

text \<open>How many requests of a sequence the limiter counts for a client.\<close>

definition counted :: "string \<Rightarrow> request list \<Rightarrow> nat" where
  "counted ip reqs = length (filter (\<lambda>r. req_ip r = ip \<and> under_api (req_path r)) reqs)"

definition sample_message :: jsval where
  "sample_message = JObj [(''role'', JStr ''user''), (''content'', JStr ''hello'')]"

definition sample_body :: jsval where
  "sample_body =
     JObj [(''messages'', JArr [sample_message]), (''temperature'', JNum (Fin (1 / 2)))]"

definition sample_request :: jsval where
  "sample_request =
     JObj [(''model'', JStr ''gpt-4o-mini''),
           (''messages'', JArr [sample_message]),
           (''max_completion_tokens'', JNum (Fin 40)),
           (''temperature'', JNum (Fin (1 / 2)))]"

definition sample_completion :: jsval where
  "sample_completion =
     JObj [(''id'', JStr ''chatcmpl-1''), (''object'', JStr ''chat.completion'')]"

definition sample_upstream :: upstream where
  "sample_upstream request = Inr sample_completion"

text \<open>A body that asks for zero completion tokens, and the request built from it.\<close>

definition zero_tokens_body :: jsval where
  "zero_tokens_body =
     JObj [(''messages'', JArr [sample_message]),
           (''max_completion_tokens'', JNum (Fin 0))]"

definition zero_tokens_request :: jsval where
  "zero_tokens_request =
     JObj [(''model'', JStr ''gpt-4o-mini''),
           (''messages'', JArr [sample_message]),
           (''max_completion_tokens'', JNum (Fin 40))]"

text \<open>A body that names another model, for comparing two bodies.\<close>

definition other_body :: jsval where
  "other_body =
     JObj [(''messages'', JArr [sample_message]), (''user'', JStr ''u-17'')]"

definition other_request :: jsval where
  "other_request =
     JObj [(''model'', JStr ''gpt-4o-mini''),
           (''messages'', JArr [sample_message]),
           (''max_completion_tokens'', JNum (Fin 40)),
           (''user'', JStr ''u-17'')]"

text \<open>A body whose only message is \<^verbatim>\<open>null\<close>: \<^verbatim>\<open>{"messages": [null]}\<close>.\<close>

definition null_message_body :: jsval where
  "null_message_body = JObj [(''messages'', JArr [JNull])]"

text \<open>Upstream failures: quota exhaustion as the provider reports it, and an overload.\<close>

definition quota_error :: js_error where
  "quota_error =
     \<lparr>err_code = JStr ''insufficient_quota'', err_status = JNum (Fin 429),
      err_message = JStr ''You exceeded your current quota'',
      err_type = JStr ''insufficient_quota''\<rparr>"

definition quota_upstream :: upstream where
  "quota_upstream request = Inl quota_error"

definition overloaded_error :: js_error where
  "overloaded_error =
     \<lparr>err_code = JNull, err_status = JNum (Fin 503),
      err_message = JStr ''The server is overloaded'',
      err_type = JStr ''server_error''\<rparr>"

definition overloaded_upstream :: upstream where
  "overloaded_upstream request = Inl overloaded_error"

text \<open>Requests of one client, and a store in which that client has used up the cap.\<close>

definition sample_clock :: "nat \<Rightarrow> string" where
  "sample_clock t = ''2024-01-01T00:00:00.000Z''"

definition health_request :: request where
  "health_request =
     \<lparr>req_method = GET, req_path = ''/health'', req_ip = ''10.0.0.1'', req_time = 5,
      req_body = JObj []\<rparr>"

definition chat_request :: request where
  "chat_request =
     \<lparr>req_method = POST, req_path = ''/api/chat/completions'', req_ip = ''10.0.0.1'',
      req_time = 5, req_body = sample_body\<rparr>"

definition empty_store :: limiter_store where
  "empty_store = \<lparr>window = 0, hits = (\<lambda>k. 0)\<rparr>"

section \<open>Reading the properties of a built object\<close>

lemma lookup_set_prop: "lookup (set_prop k v kvs) k' = (if k' = k then v else lookup kvs k')"
  by (induction kvs) (auto simp: lookup_def)

lemma lookup_foldl_set_prop:
  "lookup (foldl (\<lambda>obj k. set_prop k (f k) obj) target ks) k =
     (if k \<in> set ks then f k else lookup target k)"
  by (induction ks arbitrary: target) (auto simp: lookup_set_prop)

lemma lookup_spread:
  "lookup (spread target src) k = (if k \<in> fst ` set src then lookup src k else lookup target k)"
  by (simp add: spread_def lookup_foldl_set_prop)

lemma lookup_filter_keys:
  "P k \<Longrightarrow> lookup (filter (\<lambda>(k, v). P k) kvs) k = lookup kvs k"
  by (induction kvs) (auto simp: lookup_def)

lemma lookup_absent: "k \<notin> fst ` set kvs \<Longrightarrow> lookup kvs k = JUndefined"
  by (simp add: lookup_def map_of_eq_None_iff[THEN iffD2])

lemma rest_props_keys:
  "k \<in> fst ` set (rest_props (JObj kvs)) \<longleftrightarrow>
     k \<notin> {''model'', ''messages'', ''max_completion_tokens''} \<and> k \<in> fst ` set kvs"
  unfolding rest_props_def own_props_def by force

lemma lookup_rest_props:
  "k \<notin> {''model'', ''messages'', ''max_completion_tokens''} \<Longrightarrow>
     lookup (rest_props (JObj kvs)) k = lookup kvs k"
  unfolding rest_props_def own_props_def jsval.case
  by (rule lookup_filter_keys)

text \<open>
  Every property of the request built from the parts of an object body: the three named
  fields come from the literal, every other one from the body.
\<close>

lemma get_prop_openaiRequest:
  "get_prop (openaiRequest model messages max_completion_tokens (rest_props (JObj kvs))) k =
     Inr (if k = ''model'' then js_or model (JStr ''gpt-4o-mini'')
          else if k = ''messages'' then messages
          else if k = ''max_completion_tokens'' then js_or max_completion_tokens (http 40)
          else lookup kvs k)"
proof (cases "k \<in> {''model'', ''messages'', ''max_completion_tokens''}")
  case True
  then have "k \<notin> fst ` set (rest_props (JObj kvs))"
    by (simp only: rest_props_keys) simp
  then have "lookup (spread target (rest_props (JObj kvs))) k = lookup target k" for target
    by (simp only: lookup_spread if_False)
  with True show ?thesis
    by (auto simp: openaiRequest_def lookup_def)
next
  case False
  note other = lookup_rest_props[OF False, of kvs]
  show ?thesis
  proof (cases "k \<in> fst ` set kvs")
    case True
    with False have "k \<in> fst ` set (rest_props (JObj kvs))"
      by (simp only: rest_props_keys) simp
    then have "lookup (spread target (rest_props (JObj kvs))) k = lookup kvs k" for target
      by (simp only: lookup_spread if_True other)
    with False show ?thesis
      by (simp add: openaiRequest_def)
  next
    case absent: False
    then have "k \<notin> fst ` set (rest_props (JObj kvs))"
      by (simp only: rest_props_keys) simp
    then have "lookup (spread target (rest_props (JObj kvs))) k = lookup target k" for target
      by (simp only: lookup_spread if_False)
    with False lookup_absent[OF absent] show ?thesis
      by (simp add: openaiRequest_def lookup_def)
  qed
qed

section \<open>What the handler does with a body\<close>

lemma validate_messages_pass:
  "validate_messages ms = Inr None \<longleftrightarrow>
     (\<forall>m \<in> set ms. has_nonempty m ''role'' \<and> has_nonempty m ''content'')"
  by (induction ms) (auto simp: has_nonempty_def split: sum.splits)

text \<open>A body whose messages pass the loop is an object, and is forwarded once.\<close>

lemma chat_completions_valid:
  assumes "get_prop body ''messages'' = Inr (JArr ms)"
    and "validate_messages ms = Inr None"
  obtains kvs where "body = JObj kvs"
    and "chat_completions upstream body =
      (let request = openaiRequest (lookup kvs ''model'') (JArr ms)
                       (lookup kvs ''max_completion_tokens'') (rest_props body)
       in (case upstream request of
             Inl e \<Rightarrow> catch_block e
           | Inr completion \<Rightarrow> json_response (http 200) completion, [request]))"
proof -
  from assms(1) obtain kvs where b: "body = JObj kvs"
    by (cases body) auto
  with assms(1) have m: "lookup kvs ''messages'' = JArr ms" by simp
  have "chat_completions upstream body =
      (let request = openaiRequest (lookup kvs ''model'') (JArr ms)
                       (lookup kvs ''max_completion_tokens'') (rest_props body)
       in (case upstream request of
             Inl e \<Rightarrow> catch_block e
           | Inr completion \<Rightarrow> json_response (http 200) completion, [request]))"
    using assms(2)
    by (simp add: chat_completions_def try_block_def destructure_def b m isArray_def
        elements_def Let_def split: sum.splits)
  with b show thesis by (rule that)
qed

text \<open>The definitions a concrete run of the handler unfolds.\<close>

lemmas handler_defs =
  chat_completions_def try_block_def catch_block_def destructure_def rest_props_def
  own_props_def openaiRequest_def spread_def lookup_def js_or_def isArray_def elements_def
  http_def json_response_def bad_request_def has_nonempty_def error_field_def TypeError_def

lemmas sample_defs =
  sample_message_def sample_body_def sample_request_def sample_completion_def
  sample_upstream_def zero_tokens_body_def zero_tokens_request_def other_body_def
  other_request_def null_message_body_def quota_error_def quota_upstream_def
  overloaded_error_def overloaded_upstream_def

text \<open>
  Conversely, a request reaches the provider only from an object body whose messages
  passed the loop; it is the only one sent, and the response is the outcome of that call.
\<close>

lemma sent_request:
  assumes "request \<in> set (snd (chat_completions upstream body))"
  obtains kvs ms where "body = JObj kvs" and "lookup kvs ''messages'' = JArr ms"
    and "validate_messages ms = Inr None"
    and "chat_completions upstream body =
           (case upstream request of
              Inl e \<Rightarrow> catch_block e
            | Inr completion \<Rightarrow> json_response (http 200) completion, [request])"
    and "request = openaiRequest (lookup kvs ''model'') (JArr ms)
                     (lookup kvs ''max_completion_tokens'') (rest_props (JObj kvs))"
proof -
  have sent: "snd (chat_completions upstream body) \<noteq> []"
    using assms by auto
  then obtain kvs where b: "body = JObj kvs"
    by (cases body)
      (auto simp: chat_completions_def try_block_def destructure_def isArray_def)
  from sent b obtain ms where m: "lookup kvs ''messages'' = JArr ms"
    by (cases "lookup kvs ''messages''")
      (auto simp: chat_completions_def try_block_def destructure_def isArray_def)
  from b m have g: "get_prop body ''messages'' = Inr (JArr ms)" by simp
  have v: "validate_messages ms = Inr None"
  proof (cases "validate_messages ms")
    case (Inl e)
    with sent b m show ?thesis
      by (simp add: chat_completions_def try_block_def destructure_def isArray_def
          elements_def)
  next
    case (Inr r)
    with sent b m show ?thesis
      by (cases r)
        (simp_all add: chat_completions_def try_block_def destructure_def isArray_def
          elements_def)
  qed
  from g v obtain kvs' where b': "body = JObj kvs'"
    and run: "chat_completions upstream body =
      (let request = openaiRequest (lookup kvs' ''model'') (JArr ms)
                       (lookup kvs' ''max_completion_tokens'') (rest_props body)
       in (case upstream request of
             Inl e \<Rightarrow> catch_block e
           | Inr completion \<Rightarrow> json_response (http 200) completion, [request]))"
    by (rule chat_completions_valid)
  from b b' have same: "kvs' = kvs" by simp
  from assms run have r: "request = openaiRequest (lookup kvs ''model'') (JArr ms)
                     (lookup kvs ''max_completion_tokens'') (rest_props (JObj kvs))"
    by (simp add: Let_def same b)
  from run r have outcome: "chat_completions upstream body =
           (case upstream request of
              Inl e \<Rightarrow> catch_block e
            | Inr completion \<Rightarrow> json_response (http 200) completion, [request])"
    by (simp add: Let_def same b)
  show thesis
    by (rule that[OF b m v outcome r])
qed

text \<open>
  When no element of the array is \<^verbatim>\<open>null\<close> or \<^verbatim>\<open>undefined\<close>, reading its properties
  cannot throw, and a message without a truthy \<^verbatim>\<open>role\<close> or \<^verbatim>\<open>content\<close> ends the loop
  with the validation error.
\<close>

lemma get_prop_defined:
  "m \<noteq> JNull \<Longrightarrow> m \<noteq> JUndefined \<Longrightarrow> \<exists>v. get_prop m k = Inr v"
  by (cases m) simp_all

lemma validate_messages_reject:
  assumes "\<forall>m \<in> set ms. m \<noteq> JNull \<and> m \<noteq> JUndefined"
    and "\<exists>m \<in> set ms. \<not> (has_nonempty m ''role'' \<and> has_nonempty m ''content'')"
  shows "validate_messages ms =
           Inr (Some (bad_request ''Each message must have role and content''))"
  using assms
proof (induction ms)
  case Nil
  then show ?case by simp
next
  case (Cons m ms)
  from Cons.prems(1) obtain r c where r: "get_prop m ''role'' = Inr r"
    and c: "get_prop m ''content'' = Inr c"
    using get_prop_defined[of m] by force
  show ?case
  proof (cases "truthy r \<and> truthy c")
    case True
    with r c Cons.prems have "\<forall>m \<in> set ms. m \<noteq> JNull \<and> m \<noteq> JUndefined"
      and "\<exists>m \<in> set ms. \<not> (has_nonempty m ''role'' \<and> has_nonempty m ''content'')"
      by (auto simp: has_nonempty_def)
    then have "validate_messages ms =
           Inr (Some (bad_request ''Each message must have role and content''))"
      by (rule Cons.IH)
    with True r c show ?thesis by simp
  next
    case False
    with r c show ?thesis by auto
  qed
qed

lemma lacking_message_rejected:
  assumes "get_prop body ''messages'' = Inr (JArr ms)"
    and "\<forall>m \<in> set ms. m \<noteq> JNull \<and> m \<noteq> JUndefined"
    and "\<exists>m \<in> set ms. \<not> (has_nonempty m ''role'' \<and> has_nonempty m ''content'')"
  shows "chat_completions upstream body =
           (bad_request ''Each message must have role and content'', [])"
proof -
  from assms(1) obtain kvs where b: "body = JObj kvs"
    by (cases body) auto
  with assms(1) have m: "lookup kvs ''messages'' = JArr ms" by simp
  from assms(2,3) have "validate_messages ms =
           Inr (Some (bad_request ''Each message must have role and content''))"
    by (rule validate_messages_reject)
  then show ?thesis
    by (simp add: chat_completions_def try_block_def destructure_def b m isArray_def
        elements_def)
qed

section \<open>What the limiter counts\<close>

lemma app_store:
  "snd (app upstream toISOString store req) =
     (if under_api (req_path req) then snd (limiter (req_time req) (req_ip req) store)
      else store)"
  by (simp add: app_def split: prod.splits bool.splits)

text \<open>
  Seen from a time \<open>t\<close> of the same window, each request under \<^verbatim>\<open>/api\<close> adds one to
  its client's counter, and a sequence of requests adds the number the limiter counts.
\<close>

lemma app_counts:
  assumes "req_time req div windowMs = t div windowMs"
  shows "hits (roll t (snd (app upstream toISOString store req))) ip =
           hits (roll t store) ip +
           (if req_ip req = ip \<and> under_api (req_path req) then 1 else 0)"
  using assms by (simp add: app_store limiter_def roll_def Let_def)

lemma serve_counts:
  assumes "\<forall>q \<in> set reqs. req_time q div windowMs = t div windowMs"
  shows "hits (roll t (serve upstream toISOString store reqs)) ip =
           hits (roll t store) ip + counted ip reqs"
  using assms
proof (induction reqs arbitrary: store)
  case Nil
  then show ?case by (simp add: counted_def)
next
  case (Cons q reqs)
  from Cons.prems have q: "req_time q div windowMs = t div windowMs"
    and rest: "\<forall>q \<in> set reqs. req_time q div windowMs = t div windowMs"
    by simp_all
  have "hits (roll t (serve upstream toISOString store (q # reqs))) ip =
        hits (roll t (snd (app upstream toISOString store q))) ip + counted ip reqs"
    using Cons.IH[OF rest] by simp
  also have "\<dots> = hits (roll t store) ip + counted ip (q # reqs)"
    by (simp add: app_counts[OF q] counted_def)
  finally show ?case .
qed

section \<open>The claims\<close>

text \<open>
  C1. For every body whose \<^verbatim>\<open>messages\<close> is a non-empty array in which every element has
  a non-empty \<^verbatim>\<open>role\<close> and a non-empty \<^verbatim>\<open>content\<close>, the handler sends exactly one
  request upstream and, when that call returns a completion, answers 200 with the
  completion as it came.
\<close>

theorem valid_request_one_call:
  assumes "get_prop body ''messages'' = Inr (JArr ms)"
    and "ms \<noteq> []"
    and "\<forall>m \<in> set ms. has_nonempty m ''role'' \<and> has_nonempty m ''content''"
  shows "\<exists>request. snd (chat_completions upstream body) = [request] \<and>
           (\<forall>completion. upstream request = Inr completion \<longrightarrow>
              fst (chat_completions upstream body) =
                \<lparr>statusCode = JNum (Fin 200), payload = completion\<rparr>)"
proof -
  from assms(3) have "validate_messages ms = Inr None"
    by (simp only: validate_messages_pass)
  with assms(1) obtain kvs where "body = JObj kvs"
    and run: "chat_completions upstream body =
      (let request = openaiRequest (lookup kvs ''model'') (JArr ms)
                       (lookup kvs ''max_completion_tokens'') (rest_props body)
       in (case upstream request of
             Inl e \<Rightarrow> catch_block e
           | Inr completion \<Rightarrow> json_response (http 200) completion, [request]))"
    by (rule chat_completions_valid)
  show ?thesis
    by (simp add: run Let_def json_response_def http_def)
qed

theorem valid_request_one_call_witness:
  "has_nonempty sample_message ''role'' \<and> has_nonempty sample_message ''content'' \<and>
   snd (chat_completions sample_upstream sample_body) = [sample_request] \<and>
   sample_upstream sample_request = Inr sample_completion \<and>
   fst (chat_completions sample_upstream sample_body) =
     \<lparr>statusCode = JNum (Fin 200), payload = sample_completion\<rparr>"
proof -
  have m: "get_prop sample_body ''messages'' = Inr (JArr [sample_message])"
    by (simp add: sample_body_def lookup_def)
  have ne: "[sample_message] \<noteq> []" by simp
  have ok: "\<forall>m \<in> set [sample_message]. has_nonempty m ''role'' \<and> has_nonempty m ''content''"
    by (simp add: has_nonempty_def sample_message_def lookup_def)
  have sent: "snd (chat_completions sample_upstream sample_body) = [sample_request]"
    by (simp add: handler_defs sample_defs)
  from valid_request_one_call[OF m ne ok, of sample_upstream] ok sent
  show ?thesis
    by (auto simp: sample_upstream_def)
qed

text \<open>
  C2. For every body in which \<^verbatim>\<open>messages\<close> is absent or is not an array, the handler
  answers 400 with an envelope of type \<^verbatim>\<open>invalid_request_error\<close> and sends nothing
  upstream. The body is what the JSON middleware hands over, an object or an array, so
  reading \<^verbatim>\<open>messages\<close> from it succeeds; an absent field reads as \<^verbatim>\<open>undefined\<close>.
\<close>

theorem missing_messages_rejected:
  assumes "get_prop body ''messages'' = Inr messages"
    and "\<not> isArray messages"
  shows "chat_completions upstream body =
    (\<lparr>statusCode = JNum (Fin 400),
      payload = JObj [(''error'', JObj [(''message'', JStr ''Messages array is required''),
                                        (''type'', JStr ''invalid_request_error'')])]\<rparr>, [])"
proof -
  from assms(1) have "get_prop body ''model'' = Inr (case body of JObj kvs \<Rightarrow> lookup kvs ''model'' | _ \<Rightarrow> JUndefined)"
    and "get_prop body ''max_completion_tokens'' = Inr (case body of JObj kvs \<Rightarrow> lookup kvs ''max_completion_tokens'' | _ \<Rightarrow> JUndefined)"
    by (cases body; simp)+
  with assms show ?thesis
    by (simp add: chat_completions_def try_block_def destructure_def bad_request_def
        json_response_def http_def)
qed

theorem missing_messages_rejected_witness:
  "get_prop (JObj [(''model'', JStr ''gpt-4o'')]) ''messages'' = Inr JUndefined \<and>
   isArray JUndefined = False \<and>
   chat_completions sample_upstream (JObj [(''model'', JStr ''gpt-4o'')]) =
    (\<lparr>statusCode = JNum (Fin 400),
      payload = JObj [(''error'', JObj [(''message'', JStr ''Messages array is required''),
                                        (''type'', JStr ''invalid_request_error'')])]\<rparr>, [])"
proof -
  have g: "get_prop (JObj [(''model'', JStr ''gpt-4o'')]) ''messages'' = Inr JUndefined"
    by (simp add: lookup_def)
  have n: "\<not> isArray JUndefined"
    by (simp add: isArray_def)
  from missing_messages_rejected[OF g n, of sample_upstream] g n
  show ?thesis by simp
qed

text \<open>
  C3. The claim: for every body whose \<^verbatim>\<open>messages\<close> is an array with an element that
  lacks a non-empty \<^verbatim>\<open>role\<close> or \<^verbatim>\<open>content\<close>, the handler answers 400 with type
  \<^verbatim>\<open>invalid_request_error\<close> and sends nothing upstream. For the body
  \<^verbatim>\<open>{"messages": [null]}\<close> the loop reads \<^verbatim>\<open>message.role\<close> of \<^verbatim>\<open>null\<close>, which throws;
  the handler's \<^verbatim>\<open>catch\<close> answers 500 with type \<^verbatim>\<open>server_error\<close>. Nothing is sent
  upstream.
\<close>

theorem null_message_server_error:
  "chat_completions sample_upstream null_message_body =
    (\<lparr>statusCode = JNum (Fin 500),
      payload = JObj [(''error'', JObj [(''message'', JStr ''Internal server error''),
                                        (''type'', JStr ''server_error'')])]\<rparr>, [])"
  by (simp add: handler_defs sample_defs)

text \<open>
  C4, as stated, fails: a body that supplies \<^verbatim>\<open>max_completion_tokens: 0\<close> is forwarded
  with the default 40, since \<^verbatim>\<open>||\<close> replaces every falsy value.
\<close>

theorem zero_tokens_replaced:
  "get_prop zero_tokens_body ''max_completion_tokens'' = Inr (JNum (Fin 0)) \<and>
   snd (chat_completions sample_upstream zero_tokens_body) = [zero_tokens_request] \<and>
   get_prop zero_tokens_request ''max_completion_tokens'' = Inr (JNum (Fin 40)) \<and>
   get_prop zero_tokens_request ''max_completion_tokens'' \<noteq>
     get_prop zero_tokens_body ''max_completion_tokens''"
  by (simp add: handler_defs sample_defs)

text \<open>
  C4, amended. For every body the handler forwards, the request has \<^verbatim>\<open>model\<close> equal to
  the caller's when that is truthy and \<^verbatim>\<open>gpt-4o-mini\<close> otherwise,
  \<^verbatim>\<open>max_completion_tokens\<close> equal to the caller's when that is truthy and 40 otherwise,
  \<^verbatim>\<open>messages\<close> equal to the caller's, and every other field of the body unmodified.
\<close>

theorem request_fields:
  assumes "body = JObj kvs"
    and "request \<in> set (snd (chat_completions upstream body))"
  shows "get_prop request ''model'' =
           Inr (if truthy (lookup kvs ''model'') then lookup kvs ''model''
                else JStr ''gpt-4o-mini'') \<and>
         get_prop request ''max_completion_tokens'' =
           Inr (if truthy (lookup kvs ''max_completion_tokens'')
                then lookup kvs ''max_completion_tokens'' else JNum (Fin 40)) \<and>
         get_prop request ''messages'' = Inr (lookup kvs ''messages'') \<and>
         (\<forall>k. k \<notin> {''model'', ''messages'', ''max_completion_tokens''} \<longrightarrow>
              get_prop request k = Inr (lookup kvs k))"
proof -
  from assms(2) obtain kvs' ms where b: "body = JObj kvs'"
    and m: "lookup kvs' ''messages'' = JArr ms"
    and r: "request = openaiRequest (lookup kvs' ''model'') (JArr ms)
              (lookup kvs' ''max_completion_tokens'') (rest_props (JObj kvs'))"
    by (rule sent_request)
  from assms(1) b have same: "kvs' = kvs" by simp
  show ?thesis
    unfolding r get_prop_openaiRequest
    by (simp add: same m[unfolded same] js_or_def http_def)
qed

theorem request_fields_witness:
  "sample_request \<in> set (snd (chat_completions sample_upstream sample_body)) \<and>
   get_prop sample_request ''model'' = Inr (JStr ''gpt-4o-mini'') \<and>
   get_prop sample_request ''max_completion_tokens'' = Inr (JNum (Fin 40)) \<and>
   get_prop sample_request ''messages'' = Inr (JArr [sample_message]) \<and>
   get_prop sample_request ''temperature'' = Inr (JNum (Fin (1 / 2)))"
proof -
  have mem: "sample_request \<in> set (snd (chat_completions sample_upstream sample_body))"
    by (simp add: handler_defs sample_defs)
  from request_fields[OF sample_body_def mem] mem
  show ?thesis
    by (simp add: lookup_def)
qed

text \<open>
  C5. When the upstream call fails, the handler classifies the error in this order: code
  \<^verbatim>\<open>insufficient_quota\<close> gives 429 with type \<^verbatim>\<open>insufficient_quota\<close>; otherwise code
  \<^verbatim>\<open>rate_limit_exceeded\<close> gives 429 with type \<^verbatim>\<open>rate_limit_exceeded\<close>; otherwise an
  error with a truthy status gives that status with the error's message, type and code,
  each replaced by a generic fallback when absent (\<^verbatim>\<open>api_error\<close> for type and code);
  otherwise 500 with type \<^verbatim>\<open>server_error\<close> and a generic message.
\<close>

theorem upstream_failure_classified:
  assumes "request \<in> set (snd (chat_completions upstream body))"
    and "upstream request = Inl error"
    and "r = fst (chat_completions upstream body)"
  shows "(err_code error = JStr ''insufficient_quota'' \<longrightarrow>
            statusCode r = JNum (Fin 429) \<and>
            error_field r ''type'' = Inr (JStr ''insufficient_quota'')) \<and>
         (err_code error \<noteq> JStr ''insufficient_quota'' \<and>
          err_code error = JStr ''rate_limit_exceeded'' \<longrightarrow>
            statusCode r = JNum (Fin 429) \<and>
            error_field r ''type'' = Inr (JStr ''rate_limit_exceeded'')) \<and>
         (err_code error \<noteq> JStr ''insufficient_quota'' \<and>
          err_code error \<noteq> JStr ''rate_limit_exceeded'' \<and> truthy (err_status error) \<longrightarrow>
            statusCode r = err_status error \<and>
            error_field r ''message'' =
              Inr (if truthy (err_message error) then err_message error
                   else JStr ''OpenAI API error'') \<and>
            error_field r ''type'' =
              Inr (if truthy (err_type error) then err_type error else JStr ''api_error'') \<and>
            error_field r ''code'' =
              Inr (if truthy (err_code error) then err_code error else JStr ''api_error'')) \<and>
         (err_code error \<noteq> JStr ''insufficient_quota'' \<and>
          err_code error \<noteq> JStr ''rate_limit_exceeded'' \<and> \<not> truthy (err_status error) \<longrightarrow>
            statusCode r = JNum (Fin 500) \<and>
            error_field r ''type'' = Inr (JStr ''server_error'') \<and>
            error_field r ''message'' = Inr (JStr ''Internal server error''))"
proof -
  from assms(1) have "chat_completions upstream body =
           (case upstream request of
              Inl e \<Rightarrow> catch_block e
            | Inr completion \<Rightarrow> json_response (http 200) completion, [request])"
    by (rule sent_request)
  with assms(2,3) have r: "r = catch_block error"
    by simp
  show ?thesis
    unfolding r
    by (simp add: catch_block_def error_field_def json_response_def http_def lookup_def
        js_or_def)
qed

theorem upstream_failure_classified_witness:
  "sample_request \<in> set (snd (chat_completions overloaded_upstream sample_body)) \<and>
   overloaded_upstream sample_request = Inl overloaded_error \<and>
   statusCode (fst (chat_completions overloaded_upstream sample_body)) = JNum (Fin 503) \<and>
   error_field (fst (chat_completions overloaded_upstream sample_body)) ''message'' =
     Inr (JStr ''The server is overloaded'') \<and>
   error_field (fst (chat_completions overloaded_upstream sample_body)) ''type'' =
     Inr (JStr ''server_error'') \<and>
   error_field (fst (chat_completions overloaded_upstream sample_body)) ''code'' =
     Inr (JStr ''api_error'')"
proof -
  have mem: "sample_request \<in> set (snd (chat_completions overloaded_upstream sample_body))"
    by (simp add: handler_defs sample_defs)
  have fails: "overloaded_upstream sample_request = Inl overloaded_error"
    by (simp add: overloaded_upstream_def)
  from upstream_failure_classified[OF mem fails refl] mem fails
  show ?thesis
    by (simp add: overloaded_error_def)
qed

text \<open>
  C6, as stated, fails: a failure with status 429, code \<^verbatim>\<open>insufficient_quota\<close> and a
  message of its own is answered with the handler's fixed message, not with the upstream
  one.
\<close>

theorem quota_message_replaced:
  "snd (chat_completions quota_upstream sample_body) = [sample_request] \<and>
   quota_upstream sample_request = Inl quota_error \<and>
   truthy (err_status quota_error) \<and> truthy (err_message quota_error) \<and>
   error_field (fst (chat_completions quota_upstream sample_body)) ''message'' =
     Inr (JStr ''API quota exceeded'') \<and>
   error_field (fst (chat_completions quota_upstream sample_body)) ''message'' \<noteq>
     Inr (err_message quota_error)"
  by (simp add: handler_defs sample_defs)

text \<open>
  C6, amended. For every upstream failure whose code is neither \<^verbatim>\<open>insufficient_quota\<close>
  nor \<^verbatim>\<open>rate_limit_exceeded\<close> and that carries a status S and a message M, the handler
  answers with status S and an envelope whose message is M.
\<close>

theorem status_and_message_passed_through:
  assumes "request \<in> set (snd (chat_completions upstream body))"
    and "upstream request = Inl error"
    and "err_code error \<noteq> JStr ''insufficient_quota''"
    and "err_code error \<noteq> JStr ''rate_limit_exceeded''"
    and "truthy (err_status error)"
    and "truthy (err_message error)"
  shows "statusCode (fst (chat_completions upstream body)) = err_status error \<and>
         error_field (fst (chat_completions upstream body)) ''message'' =
           Inr (err_message error)"
proof -
  from assms(1) have "chat_completions upstream body =
           (case upstream request of
              Inl e \<Rightarrow> catch_block e
            | Inr completion \<Rightarrow> json_response (http 200) completion, [request])"
    by (rule sent_request)
  with assms(2) have r: "fst (chat_completions upstream body) = catch_block error"
    by simp
  from assms(3-6) show ?thesis
    unfolding r
    by (simp add: catch_block_def error_field_def json_response_def lookup_def js_or_def)
qed

theorem status_and_message_passed_through_witness:
  "sample_request \<in> set (snd (chat_completions overloaded_upstream sample_body)) \<and>
   overloaded_upstream sample_request = Inl overloaded_error \<and>
   err_code overloaded_error \<noteq> JStr ''insufficient_quota'' \<and>
   err_code overloaded_error \<noteq> JStr ''rate_limit_exceeded'' \<and>
   truthy (err_status overloaded_error) \<and> truthy (err_message overloaded_error) \<and>
   statusCode (fst (chat_completions overloaded_upstream sample_body)) = JNum (Fin 503) \<and>
   error_field (fst (chat_completions overloaded_upstream sample_body)) ''message'' =
     Inr (JStr ''The server is overloaded'')"
proof -
  have mem: "sample_request \<in> set (snd (chat_completions overloaded_upstream sample_body))"
    by (simp add: handler_defs sample_defs)
  have fails: "overloaded_upstream sample_request = Inl overloaded_error"
    by (simp add: overloaded_upstream_def)
  have c1: "err_code overloaded_error \<noteq> JStr ''insufficient_quota''"
    and c2: "err_code overloaded_error \<noteq> JStr ''rate_limit_exceeded''"
    and s: "truthy (err_status overloaded_error)"
    and m: "truthy (err_message overloaded_error)"
    by (simp_all add: overloaded_error_def)
  from status_and_message_passed_through[OF mem fails c1 c2 s m] mem fails c1 c2 s m
  show ?thesis
    by (simp add: overloaded_error_def)
qed

text \<open>
  C7. Every \<^verbatim>\<open>GET /health\<close> is answered 200 with \<^verbatim>\<open>status\<close> equal to \<^verbatim>\<open>"OK"\<close> and the
  service name, whatever the upstream provider does, whatever the limiter has counted,
  and without a call upstream.
\<close>

theorem health_always_ok:
  "fst (app upstream toISOString store
          \<lparr>req_method = GET, req_path = ''/health'', req_ip = ip, req_time = t,
           req_body = body\<rparr>) =
     (\<lparr>statusCode = JNum (Fin 200),
       payload = JObj [(''status'', JStr ''OK''),
                       (''timestamp'', JStr (toISOString t)),
                       (''service'', JStr ''Crystal Companions Backend'')]\<rparr>, [])"
  by (simp add: app_def routes_def under_api_def health_def json_response_def http_def)

theorem health_always_ok_witness:
  "fst (app quota_upstream sample_clock empty_store health_request) =
     (\<lparr>statusCode = JNum (Fin 200),
       payload = JObj [(''status'', JStr ''OK''),
                       (''timestamp'', JStr ''2024-01-01T00:00:00.000Z''),
                       (''service'', JStr ''Crystal Companions Backend'')]\<rparr>, [])"
  using health_always_ok[of quota_upstream sample_clock empty_store "''10.0.0.1''" 5 "JObj []"]
  by (simp add: health_request_def sample_clock_def)

text \<open>
  C8. Once a client has made as many requests under \<^verbatim>\<open>/api\<close> as the cap within one
  window, its next request there in that window is answered by the limiter, before the
  handler sees the body: the answer is the rejection whatever the body is, and nothing is
  sent upstream.
\<close>

theorem over_cap_rejected:
  assumes "\<forall>q \<in> set reqs. req_time q div windowMs = req_time req div windowMs"
    and "max_requests \<le> counted (req_ip req) reqs"
    and "under_api (req_path req)"
  shows "fst (app upstream toISOString (serve upstream toISOString store reqs)
                (req\<lparr>req_body := body\<rparr>)) =
           (\<lparr>statusCode = JNum (Fin 429),
             payload = JStr ''Too many requests from this IP, please try again later.''\<rparr>,
            [])"
proof -
  let ?store = "serve upstream toISOString store reqs"
  have "hits (roll (req_time req) ?store) (req_ip req) =
          hits (roll (req_time req) store) (req_ip req) + counted (req_ip req) reqs"
    using assms(1) by (rule serve_counts)
  with assms(2) have "max_requests < hits (roll (req_time req) ?store) (req_ip req) + 1"
    by simp
  then have "\<not> fst (limiter (req_time req) (req_ip req) ?store)"
    by (simp add: limiter_def Let_def)
  then obtain store' where
    "limiter (req_time req) (req_ip req) ?store = (False, store')"
    by (cases "limiter (req_time req) (req_ip req) ?store") auto
  with assms(3) show ?thesis
    by (simp add: app_def too_many_requests_def json_response_def http_def)
qed

theorem over_cap_rejected_witness:
  "counted (req_ip chat_request) (replicate 120 chat_request) = 120 \<and>
   max_requests = 120 \<and>
   under_api (req_path chat_request) \<and>
   fst (app sample_upstream sample_clock empty_store chat_request) =
     (\<lparr>statusCode = JNum (Fin 200), payload = sample_completion\<rparr>, [sample_request]) \<and>
   fst (app sample_upstream sample_clock
          (serve sample_upstream sample_clock empty_store (replicate 120 chat_request))
          chat_request) =
     (\<lparr>statusCode = JNum (Fin 429),
       payload = JStr ''Too many requests from this IP, please try again later.''\<rparr>, [])"
proof -
  have window: "\<forall>q \<in> set (replicate 120 chat_request).
      req_time q div windowMs = req_time chat_request div windowMs"
    by simp
  have api: "under_api (req_path chat_request)"
    by (simp add: chat_request_def under_api_def)
  have n: "counted (req_ip chat_request) (replicate 120 chat_request) = 120"
    by (simp add: counted_def api)
  have cap: "max_requests \<le> counted (req_ip chat_request) (replicate 120 chat_request)"
    by (simp add: n max_requests_def)
  have first: "fst (app sample_upstream sample_clock empty_store chat_request) =
     (\<lparr>statusCode = JNum (Fin 200), payload = sample_completion\<rparr>, [sample_request])"
    by (simp add: app_def routes_def limiter_def roll_def Let_def max_requests_def
        windowMs_def under_api_def chat_request_def empty_store_def handler_defs sample_defs)
  have same: "chat_request\<lparr>req_body := sample_body\<rparr> = chat_request"
    by (simp add: chat_request_def)
  from over_cap_rejected[OF window cap api, of sample_upstream sample_clock empty_store
      sample_body] n api first
  show ?thesis
    by (simp add: same max_requests_def)
qed

text \<open>
  C9. The \<^verbatim>\<open>model\<close>, \<^verbatim>\<open>messages\<close> and \<^verbatim>\<open>max_completion_tokens\<close> of the request sent
  upstream depend only on the same three fields of the body: two bodies that agree on
  them, whatever else they carry, give requests that agree on them.
\<close>

theorem named_fields_from_body_only:
  assumes "request \<in> set (snd (chat_completions upstream body))"
    and "request' \<in> set (snd (chat_completions upstream' body'))"
    and "get_prop body ''model'' = get_prop body' ''model''"
    and "get_prop body ''messages'' = get_prop body' ''messages''"
    and "get_prop body ''max_completion_tokens'' = get_prop body' ''max_completion_tokens''"
  shows "get_prop request ''model'' = get_prop request' ''model'' \<and>
         get_prop request ''messages'' = get_prop request' ''messages'' \<and>
         get_prop request ''max_completion_tokens'' =
           get_prop request' ''max_completion_tokens''"
proof -
  from assms(1) obtain kvs ms where b: "body = JObj kvs"
    and m: "lookup kvs ''messages'' = JArr ms"
    and r: "request = openaiRequest (lookup kvs ''model'') (JArr ms)
              (lookup kvs ''max_completion_tokens'') (rest_props (JObj kvs))"
    by (rule sent_request)
  from assms(2) obtain kvs' ms' where b': "body' = JObj kvs'"
    and m': "lookup kvs' ''messages'' = JArr ms'"
    and r': "request' = openaiRequest (lookup kvs' ''model'') (JArr ms')
              (lookup kvs' ''max_completion_tokens'') (rest_props (JObj kvs'))"
    by (rule sent_request)
  from assms(3-5) b b' m m' have "lookup kvs ''model'' = lookup kvs' ''model''"
    and "ms = ms'"
    and "lookup kvs ''max_completion_tokens'' = lookup kvs' ''max_completion_tokens''"
    by simp_all
  then show ?thesis
    unfolding r r' get_prop_openaiRequest by simp
qed

theorem named_fields_from_body_only_witness:
  "sample_request \<in> set (snd (chat_completions sample_upstream sample_body)) \<and>
   other_request \<in> set (snd (chat_completions quota_upstream other_body)) \<and>
   get_prop sample_body ''temperature'' \<noteq> get_prop other_body ''temperature'' \<and>
   get_prop sample_request ''model'' = get_prop other_request ''model'' \<and>
   get_prop sample_request ''messages'' = get_prop other_request ''messages'' \<and>
   get_prop sample_request ''max_completion_tokens'' =
     get_prop other_request ''max_completion_tokens''"
proof -
  have mem: "sample_request \<in> set (snd (chat_completions sample_upstream sample_body))"
    by (simp add: handler_defs sample_defs)
  have mem': "other_request \<in> set (snd (chat_completions quota_upstream other_body))"
    by (simp add: handler_defs sample_defs)
  have 1: "get_prop sample_body ''model'' = get_prop other_body ''model''"
    and 2: "get_prop sample_body ''messages'' = get_prop other_body ''messages''"
    and 3: "get_prop sample_body ''max_completion_tokens'' =
            get_prop other_body ''max_completion_tokens''"
    and 4: "get_prop sample_body ''temperature'' \<noteq> get_prop other_body ''temperature''"
    by (simp_all add: sample_body_def other_body_def lookup_def)
  from named_fields_from_body_only[OF mem mem' 1 2 3] mem mem' 4
  show ?thesis by simp
qed

text \<open>
  C10. A body whose \<^verbatim>\<open>messages\<close> is the empty array passes both validation checks: the
  handler sends one request upstream, with the empty \<^verbatim>\<open>messages\<close>, and answers with the
  outcome of that call, not with a validation error.
\<close>

theorem empty_messages_forwarded:
  assumes "get_prop body ''messages'' = Inr (JArr [])"
  shows "\<exists>request.
     chat_completions upstream body =
       (case upstream request of
          Inl e \<Rightarrow> catch_block e
        | Inr completion \<Rightarrow> \<lparr>statusCode = JNum (Fin 200), payload = completion\<rparr>,
        [request]) \<and>
     get_prop request ''messages'' = Inr (JArr []) \<and>
     fst (try_block upstream body) \<noteq> Inr (bad_request ''Messages array is required'') \<and>
     fst (try_block upstream body) \<noteq> Inr (bad_request ''Each message must have role and content'')"
proof -
  have "validate_messages [] = Inr None" by simp
  with assms obtain kvs where b: "body = JObj kvs"
    and run: "chat_completions upstream body =
      (let request = openaiRequest (lookup kvs ''model'') (JArr [])
                       (lookup kvs ''max_completion_tokens'') (rest_props body)
       in (case upstream request of
             Inl e \<Rightarrow> catch_block e
           | Inr completion \<Rightarrow> json_response (http 200) completion, [request]))"
    by (rule chat_completions_valid)
  let ?request = "openaiRequest (lookup kvs ''model'') (JArr [])
                       (lookup kvs ''max_completion_tokens'') (rest_props (JObj kvs))"
  from assms b have m: "lookup kvs ''messages'' = JArr []" by simp
  have 1: "chat_completions upstream body =
       (case upstream ?request of
          Inl e \<Rightarrow> catch_block e
        | Inr completion \<Rightarrow> \<lparr>statusCode = JNum (Fin 200), payload = completion\<rparr>,
        [?request])"
    using run by (simp add: Let_def b json_response_def http_def split: sum.splits)
  have 2: "get_prop ?request ''messages'' = Inr (JArr [])"
    by (simp add: get_prop_openaiRequest)
  have 3: "fst (try_block upstream body) \<noteq> Inr (bad_request msg)" for msg
    by (simp add: try_block_def destructure_def b m isArray_def elements_def Let_def
        bad_request_def json_response_def http_def split: sum.splits)
  from 1 2 3 show ?thesis by blast
qed

theorem empty_messages_forwarded_witness:
  "get_prop (JObj [(''messages'', JArr [])]) ''messages'' = Inr (JArr []) \<and>
   chat_completions sample_upstream (JObj [(''messages'', JArr [])]) =
     (\<lparr>statusCode = JNum (Fin 200), payload = sample_completion\<rparr>,
      [JObj [(''model'', JStr ''gpt-4o-mini''), (''messages'', JArr []),
             (''max_completion_tokens'', JNum (Fin 40))]])"
proof -
  have g: "get_prop (JObj [(''messages'', JArr [])]) ''messages'' = Inr (JArr [])"
    by (simp add: lookup_def)
  have run: "chat_completions sample_upstream (JObj [(''messages'', JArr [])]) =
     (\<lparr>statusCode = JNum (Fin 200), payload = sample_completion\<rparr>,
      [JObj [(''model'', JStr ''gpt-4o-mini''), (''messages'', JArr []),
             (''max_completion_tokens'', JNum (Fin 40))]])"
    by (simp add: handler_defs sample_defs)
  from empty_messages_forwarded[OF g, of sample_upstream] g run
  show ?thesis by simp
qed

end
